theory Spec2Isabelle
  imports Complex_Main "HOL-Library.Char_ord" "HOL-Library.List_Lexorder"
begin

section \<open>Python built-ins used by \<open>xenon/core.py\<close>\<close>

text \<open>
  The module \<open>xenon/core.py\<close> works on Python strings, numbers, lists and dictionaries.
  Strings are modelled as \<open>string\<close> (lists of 8-bit characters), compared with Python's
  \<open>>\<close> by the lexicographic order on character codes (\<open>HOL-Library.List_Lexorder\<close> over
  \<open>HOL-Library.Char_ord\<close>). Python floats are modelled as exact rationals: sums of integer
  scores and their quotients carry no rounding in the model.
\<close>

datatype error = ValueError | TypeError | ZeroDivisionError

text \<open>\<open>str.isspace\<close> on a single character, for the code points below 256.\<close>

definition isspace :: "char \<Rightarrow> bool" where
  "isspace c = (of_char c \<in> set [9, 10, 11, 12, 13, 28, 29, 30, 31, 32, 133, 160 :: nat])"

text \<open>\<open>s.strip()\<close>: leading and trailing whitespace removed.\<close>

definition py_strip :: "string \<Rightarrow> string" where
  "py_strip s = rev (dropWhile isspace (rev (dropWhile isspace s)))"

text \<open>
  \<open>s.split(sep)\<close> for a one-character separator: the pieces between the separators, in
  order; a string without separator (the empty string too) is its own single piece.
\<close>

fun py_split :: "char \<Rightarrow> string \<Rightarrow> string list" where
  "py_split sep [] = [[]]"
| "py_split sep (c # cs) =
     (if c = sep then [] # py_split sep cs
      else (case py_split sep cs of [] \<Rightarrow> [[c]] | p # ps \<Rightarrow> (c # p) # ps))"

text \<open>
  \<open>s.upper()\<close>: the letters \<open>a\<close> to \<open>z\<close> go to \<open>A\<close> to \<open>Z\<close>. Characters outside ASCII are
  left as they are, which is where the model stops following Python.
\<close>

definition upper_char :: "char \<Rightarrow> char" where
  "upper_char c =
     (if CHR ''a'' \<le> c \<and> c \<le> CHR ''z'' then char_of (of_char c - (32::nat)) else c)"

definition py_upper :: "string \<Rightarrow> string" where
  "py_upper s = map upper_char s"

text \<open>
  True division \<open>n / m\<close> raises \<open>ZeroDivisionError\<close> on a zero divisor (HOL's own \<open>/\<close>
  would return 0 there).
\<close>

definition py_truediv :: "rat \<Rightarrow> rat \<Rightarrow> error + rat" where
  "py_truediv n m = (if m = 0 then Inl ZeroDivisionError else Inr (n / m))"

subsection \<open>Values handed to the logger, and how \<open>%\<close> renders them\<close>

datatype pyval = PyStr string | PyInt int | PyFloat rat

definition digit_char :: "nat \<Rightarrow> char" where
  "digit_char n = ''0123456789abcdef'' ! (n mod 16)"

fun str_nat :: "nat \<Rightarrow> string" where
  "str_nat n = (if n < 10 then [digit_char n] else str_nat (n div 10) @ [digit_char (n mod 10)])"

declare str_nat.simps [simp del]

definition str_int :: "int \<Rightarrow> string" where
  "str_int i = (if i < 0 then CHR ''-'' # str_nat (nat (- i)) else str_nat (nat i))"

text \<open>
  \<open>repr\<close> of a string: single quotes, unless the string holds a single quote and no double
  quote; the quote in use and the backslash are escaped, tab, newline and carriage return
  are written \<open>\t\<close>, \<open>\n\<close>, \<open>\r\<close>, and every other non-printable character as \<open>\xNN\<close>.
\<close>

definition printable :: "char \<Rightarrow> bool" where
  "printable c =
     (let n = (of_char c :: nat) in (32 \<le> n \<and> n < 127) \<or> (161 \<le> n \<and> n \<noteq> 173))"

definition repr_char :: "char \<Rightarrow> char \<Rightarrow> string" where
  "repr_char q c =
     (if c = q \<or> c = CHR 0x5C then [CHR 0x5C, c]
      else if c = CHR 0x09 then [CHR 0x5C, CHR ''t'']
      else if c = CHR 0x0A then [CHR 0x5C, CHR ''n'']
      else if c = CHR 0x0D then [CHR 0x5C, CHR ''r'']
      else if printable c then [c]
      else [CHR 0x5C, CHR ''x'', digit_char (of_char c div 16), digit_char (of_char c mod 16)])"

definition repr_str :: "string \<Rightarrow> string" where
  "repr_str s =
     (let q = (if CHR 0x27 \<in> set s \<and> CHR 0x22 \<notin> set s then CHR 0x22 else CHR 0x27)
      in [q] @ concat (map (repr_char q) s) @ [q])"

text \<open>
  \<open>str(v)\<close> and \<open>repr(v)\<close> of a logged value. The decimal rendering of a float is not
  modelled: the result is \<open>None\<close> there.
\<close>

fun py_str :: "pyval \<Rightarrow> string option" where
  "py_str (PyStr s) = Some s"
| "py_str (PyInt i) = Some (str_int i)"
| "py_str (PyFloat q) = None"

fun py_repr :: "pyval \<Rightarrow> string option" where
  "py_repr (PyStr s) = Some (repr_str s)"
| "py_repr (PyInt i) = Some (str_int i)"
| "py_repr (PyFloat q) = None"

text \<open>
  \<open>fmt % args\<close>, as the logging module applies it to a record, for the conversions
  \<open>%s\<close>, \<open>%r\<close> and \<open>%%\<close>. \<open>None\<close> stands for a rendering outside the model (another
  conversion, a float, or a number of arguments that does not fit the format).
\<close>

fun py_format :: "string \<Rightarrow> pyval list \<Rightarrow> string option" where
  "py_format [] [] = Some []"
| "py_format [] (v # vs) = None"
| "py_format (c # cs) vs =
     (if c = CHR ''%'' then
        (case cs of
           [] \<Rightarrow> None
         | d # ds \<Rightarrow>
            if d = CHR ''%'' then map_option ((#) d) (py_format ds vs)
            else if d = CHR ''s'' \<or> d = CHR ''r'' then
              (case vs of
                 [] \<Rightarrow> None
               | v # vs' \<Rightarrow>
                  (case (if d = CHR ''s'' then py_str v else py_repr v) of
                     None \<Rightarrow> None
                   | Some x \<Rightarrow> map_option ((@) x) (py_format ds vs')))
            else None)
      else map_option ((#) c) (py_format cs vs))"

section \<open>Data handled by \<open>find_infractions\<close>\<close>

text \<open>
  A block is one dictionary of the analyzer's result, with the three keys that
  \<open>find_infractions\<close> reads. The analyzer's complexity is an integer.
\<close>

record block =
  name :: string
  lineno :: int
  complexity :: int

text \<open>
  The value stored for a module is either a list of blocks or the dictionary
  \<open>{'error': msg}\<close>.
\<close>

datatype module_result = Blocks "block list" | ErrorDict string

text \<open>
  The attributes of \<open>args\<close> that \<open>find_infractions\<close> and \<open>build_blocks_to_ignore\<close> read;
  \<open>None\<close> is Python's \<open>None\<close>.
\<close>

record args =
  ignore_blocks :: "string option"
  absolute :: "string option"
  modules :: "string option"
  average :: "string option"
  averagenum :: "rat option"

text \<open>
  A call \<open>logger.warning(fmt, *args)\<close> or \<open>logger.error(fmt, *args)\<close> is recorded as an
  event: the severity, the format string and the arguments, as the logger receives them.
\<close>

datatype severity = Warning | Error

type_synonym event = "severity \<times> string \<times> pyval list"

definition render :: "event \<Rightarrow> string option" where
  "render ev = py_format (fst (snd ev)) (snd (snd ev))"

section \<open>The functions of \<open>xenon/core.py\<close>\<close>

subsection \<open>\<open>build_blocks_to_ignore\<close>\<close>

text \<open>
  The dictionary from module name to the list of block names; \<open>dict_get d k\<close> is
  \<open>d.get(k, [])\<close>, which is also what a \<open>defaultdict(list)\<close> starts from on a new key.
\<close>

type_synonym ignore_map = "string \<rightharpoonup> string list"

definition dict_get :: "ignore_map \<Rightarrow> string \<Rightarrow> string list" where
  "dict_get d k = (case d k of None \<Rightarrow> [] | Some l \<Rightarrow> l)"

text \<open>
  The loop over the entries (lines 50 to 52). Unpacking \<open>block_to_ignore.split(':')\<close> into
  two names raises \<open>ValueError\<close> unless the entry has exactly two parts.
\<close>

fun add_entries :: "string list \<Rightarrow> ignore_map \<Rightarrow> error + ignore_map" where
  "add_entries [] d = Inr d"
| "add_entries (block_to_ignore # rest) d =
     (case py_split (CHR '':'') block_to_ignore of
        [module_name, block_name] \<Rightarrow>
          add_entries rest
            (d(py_strip module_name \<mapsto> dict_get d (py_strip module_name) @ [py_strip block_name]))
      | _ \<Rightarrow> Inl ValueError)"

definition build_blocks_to_ignore :: "args \<Rightarrow> error + ignore_map" where
  "build_blocks_to_ignore a =
     (case ignore_blocks a of
        None \<Rightarrow> Inr Map.empty
      | Some s \<Rightarrow> if s = [] then Inr Map.empty else add_entries (py_split (CHR '','') s) Map.empty)"

subsection \<open>\<open>av\<close> and \<open>check\<close>\<close>

definition av :: "rat \<Rightarrow> rat \<Rightarrow> error + rat" where
  "av n m = (if m \<noteq> 0 then py_truediv n m else Inr 0)"

definition check :: "string \<Rightarrow> string option \<Rightarrow> bool" where
  "check rank dflt = (case dflt of Some d \<Rightarrow> rank > py_upper d | None \<Rightarrow> False)"

subsection \<open>\<open>find_infractions\<close>\<close>

text \<open>
  \<open>cc_rank\<close> belongs to the external analyzer (radon) and is not part of this repository:
  the model takes it as a parameter, a function from a score to a rank string.

  The loop over the blocks of one module (lines 85 to 91) updates \<open>module_cc\<close>,
  \<open>infractions\<close> and the log.
\<close>

fun block_loop ::
  "(rat \<Rightarrow> string) \<Rightarrow> args \<Rightarrow> ignore_map \<Rightarrow> string \<Rightarrow> block list \<Rightarrow>
     rat \<times> nat \<times> event list \<Rightarrow> rat \<times> nat \<times> event list" where
  "block_loop cc_rank a blocks_to_ignore m [] s = s"
| \<open>block_loop cc_rank a blocks_to_ignore m (b # bs) (module_cc, infractions, logged) =
     (let module_cc' = module_cc + of_int (complexity b);
          r = cc_rank (of_int (complexity b))
      in if check r (absolute a) \<and> name b \<notin> set (dict_get blocks_to_ignore m)
         then block_loop cc_rank a blocks_to_ignore m bs
                (module_cc', infractions + 1,
                 logged @ [(Error, ''block "%s:%s %s" has a rank of %s'',
                            [PyStr m, PyInt (lineno b), PyStr (name b), PyStr r])])
         else block_loop cc_rank a blocks_to_ignore m bs (module_cc', infractions, logged))\<close>

text \<open>The loop over \<open>module_averages\<close> (lines 106 to 110).\<close>

fun module_rank_loop ::
  "(rat \<Rightarrow> string) \<Rightarrow> args \<Rightarrow> (string \<times> rat) list \<Rightarrow> nat \<times> event list \<Rightarrow> nat \<times> event list" where
  "module_rank_loop cc_rank a [] s = s"
| "module_rank_loop cc_rank a ((m, ma) # rest) (infractions, logged) =
     (let mar = cc_rank ma
      in if check mar (modules a)
         then module_rank_loop cc_rank a rest
                (infractions + 1,
                 logged @ [(Error, ''module %r has a rank of %s'', [PyStr m, PyStr mar])])
         else module_rank_loop cc_rank a rest (infractions, logged))"

text \<open>The variables that the loop over the modules (lines 80 to 94) carries.\<close>

record loop_state =
  infractions :: nat
  module_averages :: "(string \<times> rat) list"
  total_cc :: rat
  total_blocks :: nat
  logged :: "event list"

text \<open>
  The loop over \<open>results.items()\<close>, in the dictionary's order. A dictionary whose
  \<open>'error'\<close> is the empty string fails the test of line 82 (\<open>blocks.get('error')\<close> is
  falsy); line 85 then iterates over its keys and line 86 indexes the string \<open>'error'\<close>
  with \<open>'complexity'\<close>, which raises \<open>TypeError\<close>. The second component of the result is
  the exception that left the loop, if any.
\<close>

fun module_loop ::
  "(rat \<Rightarrow> string) \<Rightarrow> args \<Rightarrow> ignore_map \<Rightarrow> (string \<times> module_result) list \<Rightarrow>
     loop_state \<Rightarrow> loop_state \<times> error option" where
  "module_loop cc_rank a blocks_to_ignore [] st = (st, None)"
| "module_loop cc_rank a blocks_to_ignore ((m, ErrorDict e) # rest) st =
     (if e \<noteq> [] then
        module_loop cc_rank a blocks_to_ignore rest
          (st\<lparr>logged := logged st @ [(Warning, ''cannot parse %s: %s'', [PyStr m, PyStr e])]\<rparr>)
      else (st, Some TypeError))"
| "module_loop cc_rank a blocks_to_ignore ((m, Blocks bs) # rest) st =
     (case block_loop cc_rank a blocks_to_ignore m bs (0, infractions st, logged st) of
        (module_cc, count, lg) \<Rightarrow>
          (case av module_cc (of_nat (length bs)) of
             Inl err \<Rightarrow> (st\<lparr>infractions := count, logged := lg\<rparr>, Some err)
           | Inr ma \<Rightarrow>
               module_loop cc_rank a blocks_to_ignore rest
                 \<lparr>infractions = count,
                  module_averages = module_averages st @ [(m, ma)],
                  total_cc = total_cc st + module_cc,
                  total_blocks = total_blocks st + length bs,
                  logged = lg\<rparr>))"

text \<open>
  Lines 76 to 111: the body of \<open>find_infractions\<close> once \<open>blocks_to_ignore\<close> is bound. The
  result pairs the events logged during the call with the exception raised or the
  number returned.
\<close>

definition evaluate ::
  "(rat \<Rightarrow> string) \<Rightarrow> args \<Rightarrow> ignore_map \<Rightarrow> (string \<times> module_result) list \<Rightarrow>
     event list \<times> (error + nat)" where
  "evaluate cc_rank a blocks_to_ignore results =
     (case module_loop cc_rank a blocks_to_ignore results
             \<lparr>infractions = 0, module_averages = [], total_cc = 0, total_blocks = 0,
              logged = []\<rparr> of
        (st, Some err) \<Rightarrow> (logged st, Inl err)
      | (st, None) \<Rightarrow>
          (case av (total_cc st) (of_nat (total_blocks st)) of
             Inl err \<Rightarrow> (logged st, Inl err)
           | Inr av_cc \<Rightarrow>
               (let ar = cc_rank av_cc;
                    s1 = (if (case averagenum a of None \<Rightarrow> False | Some c \<Rightarrow> av_cc > c)
                          then (infractions st + 1,
                                logged st @ [(Error, ''total average complexity is %s'',
                                              [PyFloat av_cc])])
                          else (infractions st, logged st));
                    s2 = (if check ar (average a)
                          then (fst s1 + 1,
                                snd s1 @ [(Error, ''average complexity is ranked %s'', [PyStr ar])])
                          else s1);
                    s3 = module_rank_loop cc_rank a (module_averages st) s2
                in (snd s3, Inr (fst s3)))))"

definition find_infractions ::
  "(rat \<Rightarrow> string) \<Rightarrow> args \<Rightarrow> (string \<times> module_result) list \<Rightarrow> event list \<times> (error + nat)" where
  "find_infractions cc_rank a results =
     (case build_blocks_to_ignore a of
        Inl err \<Rightarrow> ([], Inl err)
      | Inr blocks_to_ignore \<Rightarrow> evaluate cc_rank a blocks_to_ignore results)"

text \<open>
  Modelled from the spec: \<open>cc_rank\<close>, the rank function of the external analyzer, which is
  not among the sources. It is used where a theorem is evaluated at a concrete input, with
  the breakpoints that the specification lists: A up to 5, B up to 10, C up to 20, D up to
  30, E up to 40, F above.
\<close>

definition radon_cc_rank :: "rat \<Rightarrow> string" where
  "radon_cc_rank cc =
     (if cc \<le> 5 then ''A'' else if cc \<le> 10 then ''B'' else if cc \<le> 20 then ''C''
      else if cc \<le> 30 then ''D'' else if cc \<le> 40 then ''E'' else ''F'')"

section \<open>Describing what a call logs and returns\<close>

text \<open>
  The functions of this section are not part of the source: they name the events and the
  numbers that the theorems below compare the result of \<open>find_infractions\<close> with.
\<close>

text \<open>
  The event of line 89 for block \<open>b\<close> of module \<open>m\<close>, the test of line 88 that lets it
  through, the event of line 83, and what the loop over the blocks of one module or the
  skip of an error marker adds to the log.
\<close>

definition block_event :: "(rat \<Rightarrow> string) \<Rightarrow> string \<Rightarrow> block \<Rightarrow> event" where
  \<open>block_event cc_rank m b =
     (Error, ''block "%s:%s %s" has a rank of %s'',
      [PyStr m, PyInt (lineno b), PyStr (name b), PyStr (cc_rank (of_int (complexity b)))])\<close>

definition flagged :: "(rat \<Rightarrow> string) \<Rightarrow> args \<Rightarrow> ignore_map \<Rightarrow> string \<Rightarrow> block \<Rightarrow> bool" where
  "flagged cc_rank a ig m b =
     (check (cc_rank (of_int (complexity b))) (absolute a) \<and> name b \<notin> set (dict_get ig m))"

definition warning_event :: "string \<Rightarrow> string \<Rightarrow> event" where
  "warning_event m e = (Warning, ''cannot parse %s: %s'', [PyStr m, PyStr e])"

fun module_events ::
  "(rat \<Rightarrow> string) \<Rightarrow> args \<Rightarrow> ignore_map \<Rightarrow> string \<times> module_result \<Rightarrow> event list" where
  "module_events cc_rank a ig (m, ErrorDict e) = [warning_event m e]"
| "module_events cc_rank a ig (m, Blocks bs) =
     map (block_event cc_rank m) (filter (flagged cc_rank a ig m) bs)"

text \<open>
  The average score of a list of blocks, the pair that a module contributes to
  \<open>module_averages\<close>, and the blocks of all the modules of a result set.
\<close>

definition score_sum :: "block list \<Rightarrow> rat" where
  "score_sum bs = sum_list (map (\<lambda>b. of_int (complexity b)) bs)"

definition average_of :: "block list \<Rightarrow> rat" where
  "average_of bs = (if bs = [] then 0 else score_sum bs / of_nat (length bs))"

fun parsed_blocks :: "module_result \<Rightarrow> block list" where
  "parsed_blocks (Blocks bs) = bs"
| "parsed_blocks (ErrorDict e) = []"

fun module_average :: "string \<times> module_result \<Rightarrow> (string \<times> rat) list" where
  "module_average (m, Blocks bs) = [(m, average_of bs)]"
| "module_average (m, ErrorDict e) = []"

definition averages :: "(string \<times> module_result) list \<Rightarrow> (string \<times> rat) list" where
  "averages results = concat (map module_average results)"

definition all_blocks :: "(string \<times> module_result) list \<Rightarrow> block list" where
  "all_blocks results = concat (map (\<lambda>(m, r). parsed_blocks r) results)"

text \<open>
  The events of lines 99 to 110 for a whole-codebase average and a list of module
  averages, and the whole log of a call that completes.
\<close>

definition numeric_events :: "args \<Rightarrow> rat \<Rightarrow> event list" where
  "numeric_events a av_cc =
     (case averagenum a of
        None \<Rightarrow> []
      | Some c \<Rightarrow> if av_cc > c then [(Error, ''total average complexity is %s'', [PyFloat av_cc])]
                  else [])"

definition total_rank_events :: "(rat \<Rightarrow> string) \<Rightarrow> args \<Rightarrow> rat \<Rightarrow> event list" where
  "total_rank_events cc_rank a av_cc =
     (if check (cc_rank av_cc) (average a)
      then [(Error, ''average complexity is ranked %s'', [PyStr (cc_rank av_cc)])] else [])"

definition module_rank_event :: "(rat \<Rightarrow> string) \<Rightarrow> string \<times> rat \<Rightarrow> event" where
  "module_rank_event cc_rank p =
     (Error, ''module %r has a rank of %s'', [PyStr (fst p), PyStr (cc_rank (snd p))])"

definition module_rank_events ::
  "(rat \<Rightarrow> string) \<Rightarrow> args \<Rightarrow> (string \<times> rat) list \<Rightarrow> event list" where
  "module_rank_events cc_rank a avs =
     map (module_rank_event cc_rank) (filter (\<lambda>p. check (cc_rank (snd p)) (modules a)) avs)"

definition expected_events ::
  "(rat \<Rightarrow> string) \<Rightarrow> args \<Rightarrow> ignore_map \<Rightarrow> (string \<times> module_result) list \<Rightarrow> event list" where
  "expected_events cc_rank a ig results =
     concat (map (module_events cc_rank a ig) results)
     @ numeric_events a (average_of (all_blocks results))
     @ total_rank_events cc_rank a (average_of (all_blocks results))
     @ module_rank_events cc_rank a (averages results)"

text \<open>The kinds of events: by severity, and by the format string of the axis.\<close>

definition is_error :: "event \<Rightarrow> bool" where
  "is_error ev = (fst ev = Error)"

definition is_block_event :: "event \<Rightarrow> bool" where
  \<open>is_block_event ev = (fst (snd ev) = ''block "%s:%s %s" has a rank of %s'')\<close>

definition is_numeric_event :: "event \<Rightarrow> bool" where
  "is_numeric_event ev = (fst (snd ev) = ''total average complexity is %s'')"

definition is_total_rank_event :: "event \<Rightarrow> bool" where
  "is_total_rank_event ev = (fst (snd ev) = ''average complexity is ranked %s'')"

definition is_module_rank_event :: "event \<Rightarrow> bool" where
  "is_module_rank_event ev = (fst (snd ev) = ''module %r has a rank of %s'')"

definition is_warning :: "event \<Rightarrow> bool" where
  "is_warning ev = (fst ev = Warning)"

text \<open>
  A block event is suppressed by an ignore map when the map lists its block name (the
  third argument) under its module (the first argument).
\<close>

definition suppressed :: "ignore_map \<Rightarrow> event \<Rightarrow> bool" where
  "suppressed ig ev =
     (is_block_event ev \<and>
      (case snd (snd ev) of
         [PyStr m, l, PyStr n, r] \<Rightarrow> n \<in> set (dict_get ig m)
       | _ \<Rightarrow> False))"


text \<open>The warning that a module logs, if it is an error marker.\<close>

fun module_warnings :: "string \<times> module_result \<Rightarrow> event list" where
  "module_warnings (m, ErrorDict e) = [warning_event m e]"
| "module_warnings (m, Blocks bs) = []"

section \<open>The loops, in closed form\<close>

lemma av_eq: "av n (of_nat k) = Inr (if k = 0 then 0 else n / of_nat k)"
  by (simp add: av_def py_truediv_def)

lemma block_loop_eq:
  "block_loop cc_rank a ig m bs (module_cc, n, lg) =
     (module_cc + score_sum bs,
      n + length (filter (flagged cc_rank a ig m) bs),
      lg @ map (block_event cc_rank m) (filter (flagged cc_rank a ig m) bs))"
  by (induction bs arbitrary: module_cc n lg)
     (simp_all add: score_sum_def flagged_def block_event_def Let_def)

lemma module_rank_loop_eq:
  "module_rank_loop cc_rank a avs (n, lg) =
     (n + length (module_rank_events cc_rank a avs), lg @ module_rank_events cc_rank a avs)"
  by (induction avs arbitrary: n lg)
     (auto simp: module_rank_events_def module_rank_event_def Let_def)

lemma module_loop_eq:
  "ErrorDict [] \<notin> snd ` set results \<Longrightarrow>
   module_loop cc_rank a ig results st =
     (\<lparr>infractions = infractions st
          + length (filter is_error (concat (map (module_events cc_rank a ig) results))),
       module_averages = module_averages st @ averages results,
       total_cc = total_cc st + score_sum (all_blocks results),
       total_blocks = total_blocks st + length (all_blocks results),
       logged = logged st @ concat (map (module_events cc_rank a ig) results)\<rparr>, None)"
proof (induction results arbitrary: st)
  case Nil
  then show ?case by (simp add: averages_def all_blocks_def score_sum_def)
next
  case (Cons p results)
  obtain m r where p: "p = (m, r)" by (cases p)
  from Cons.prems have rest: "ErrorDict [] \<notin> snd ` set results" by auto
  show ?case
  proof (cases r)
    case (Blocks bs)
    have errs: "filter is_error (map (block_event cc_rank m) (filter (flagged cc_rank a ig m) bs))
                = map (block_event cc_rank m) (filter (flagged cc_rank a ig m) bs)"
      by (induction bs) (simp_all add: is_error_def block_event_def)
    show ?thesis
      by (simp add: p Blocks block_loop_eq av_eq Cons.IH [OF rest] averages_def all_blocks_def
          score_sum_def average_of_def errs)
  next
    case (ErrorDict e)
    with Cons.prems p have "e \<noteq> []" by auto
    then show ?thesis
      by (simp add: p ErrorDict Cons.IH [OF rest] averages_def all_blocks_def
          is_error_def warning_event_def)
  qed
qed

lemma filter_is_error_module_rank_events:
  "filter is_error (module_rank_events cc_rank a avs) = module_rank_events cc_rank a avs"
  by (induction avs) (simp_all add: module_rank_events_def module_rank_event_def is_error_def)

lemma filter_is_error_numeric_events:
  "filter is_error (numeric_events a q) = numeric_events a q"
  by (simp add: numeric_events_def is_error_def split: option.splits)

lemma filter_is_error_total_rank_events:
  "filter is_error (total_rank_events cc_rank a q) = total_rank_events cc_rank a q"
  by (simp add: total_rank_events_def is_error_def)

lemma average_of_eq:
  "(if length bs = 0 then 0 else score_sum bs / of_nat (length bs)) = average_of bs"
  by (simp add: average_of_def)

lemma evaluate_eq:
  assumes "ErrorDict [] \<notin> snd ` set results"
  shows "evaluate cc_rank a ig results =
           (expected_events cc_rank a ig results,
            Inr (length (filter is_error (expected_events cc_rank a ig results))))"
proof -
  let ?L = "concat (map (module_events cc_rank a ig) results)"
  let ?q = "average_of (all_blocks results)"
  let ?st0 = "\<lparr>infractions = 0, module_averages = [], total_cc = 0, total_blocks = 0,
               logged = []\<rparr>"
  have ml: "module_loop cc_rank a ig results ?st0 =
      (\<lparr>infractions = length (filter is_error ?L), module_averages = averages results,
        total_cc = score_sum (all_blocks results),
        total_blocks = length (all_blocks results), logged = ?L\<rparr>, None)"
    using module_loop_eq [OF assms, of cc_rank a ig ?st0] by simp
  have avq: "av (score_sum (all_blocks results)) (of_nat (length (all_blocks results))) = Inr ?q"
    by (simp add: av_eq average_of_def)
  let ?c = "case averagenum a of None \<Rightarrow> False | Some c \<Rightarrow> ?q > c"
  have num: "?c \<Longrightarrow>
      numeric_events a ?q = [(Error, ''total average complexity is %s'', [PyFloat ?q])]"
    by (simp add: numeric_events_def split: option.splits)
  have nonum: "\<not> ?c \<Longrightarrow> numeric_events a ?q = []"
    by (simp add: numeric_events_def split: option.splits)
  show ?thesis
    unfolding evaluate_def expected_events_def
    by (cases ?c; cases "check (cc_rank ?q) (average a)")
       (simp_all add: ml avq num nonum Let_def module_rank_loop_eq total_rank_events_def
          filter_is_error_module_rank_events is_error_def)
qed

lemma module_loop_TypeError:
  "ErrorDict [] \<in> snd ` set results \<Longrightarrow>
   snd (module_loop cc_rank a ig results st) = Some TypeError"
proof (induction results arbitrary: st)
  case Nil
  then show ?case by simp
next
  case (Cons p results)
  obtain m r where p: "p = (m, r)" by (cases p)
  show ?case
  proof (cases r)
    case (Blocks bs)
    with Cons.prems p have "ErrorDict [] \<in> snd ` set results" by auto
    then show ?thesis
      by (simp add: p Blocks block_loop_eq av_eq Cons.IH)
  next
    case (ErrorDict e)
    show ?thesis
    proof (cases "e = []")
      case True
      then show ?thesis by (simp add: p ErrorDict)
    next
      case False
      with Cons.prems p ErrorDict have "ErrorDict [] \<in> snd ` set results" by auto
      with False show ?thesis by (simp add: p ErrorDict Cons.IH)
    qed
  qed
qed

lemma evaluate_TypeError:
  assumes "ErrorDict [] \<in> snd ` set results"
  shows "snd (evaluate cc_rank a ig results) = Inl TypeError"
proof -
  let ?st = "\<lparr>infractions = 0, module_averages = [], total_cc = 0, total_blocks = 0,
              logged = []\<rparr>"
  obtain st' where "module_loop cc_rank a ig results ?st = (st', Some TypeError)"
    using module_loop_TypeError [OF assms, of cc_rank a ig ?st]
    by (cases "module_loop cc_rank a ig results ?st") simp
  then show ?thesis by (simp add: evaluate_def)
qed

lemma find_infractions_eq:
  assumes "build_blocks_to_ignore a = Inr ig" and "ErrorDict [] \<notin> snd ` set results"
  shows "find_infractions cc_rank a results =
           (expected_events cc_rank a ig results,
            Inr (length (filter is_error (expected_events cc_rank a ig results))))"
  by (simp add: find_infractions_def assms(1) evaluate_eq [OF assms(2)])

lemma find_infractions_returns:
  assumes "find_infractions cc_rank a results = (evs, Inr n)"
  shows "\<exists>ig. build_blocks_to_ignore a = Inr ig \<and> ErrorDict [] \<notin> snd ` set results"
proof (cases "build_blocks_to_ignore a")
  case (Inl err)
  with assms show ?thesis by (simp add: find_infractions_def)
next
  case (Inr ig)
  have "ErrorDict [] \<notin> snd ` set results"
  proof
    assume "ErrorDict [] \<in> snd ` set results"
    from evaluate_TypeError [OF this, of cc_rank a ig] assms Inr
    show False by (simp add: find_infractions_def)
  qed
  with Inr show ?thesis by simp
qed

lemma py_format_plain [simp]:
  "c \<noteq> CHR ''%'' \<Longrightarrow> py_format (c # cs) vs = map_option ((#) c) (py_format cs vs)"
  by simp

lemma py_format_s [simp]:
  "py_format (CHR ''%'' # CHR ''s'' # cs) (PyStr s # vs) = map_option ((@) s) (py_format cs vs)"
  by simp

lemma py_format_s_int [simp]:
  "py_format (CHR ''%'' # CHR ''s'' # cs) (PyInt i # vs) = map_option ((@) (str_int i)) (py_format cs vs)"
  by simp

lemma py_format_r [simp]:
  "py_format (CHR ''%'' # CHR ''r'' # cs) (PyStr s # vs) = map_option ((@) (repr_str s)) (py_format cs vs)"
  by simp

declare py_format.simps(3) [simp del]

lemma render_block_event:
  \<open>render (block_event cc_rank m b) =
     Some (''block "'' @ m @ '':'' @ str_int (lineno b) @ '' '' @ name b
           @ ''" has a rank of '' @ cc_rank (of_int (complexity b)))\<close>
  by (simp add: render_def block_event_def)

lemma render_warning_event:
  "render (warning_event m e) = Some (''cannot parse '' @ m @ '': '' @ e)"
  by (simp add: render_def warning_event_def)

lemma render_module_rank_event:
  "render (module_rank_event cc_rank (m, q)) =
     Some (''module '' @ repr_str m @ '' has a rank of '' @ cc_rank q)"
  by (simp add: render_def module_rank_event_def)

lemma kinds_block_event [simp]:
  "is_block_event (block_event cc_rank m b)" "is_error (block_event cc_rank m b)"
  "\<not> is_warning (block_event cc_rank m b)"
  "\<not> is_numeric_event (block_event cc_rank m b)"
  "\<not> is_total_rank_event (block_event cc_rank m b)"
  "\<not> is_module_rank_event (block_event cc_rank m b)"
  by (simp_all add: block_event_def is_block_event_def is_error_def is_warning_def
      is_numeric_event_def is_total_rank_event_def is_module_rank_event_def)

lemma kinds_warning_event [simp]:
  "\<not> is_block_event (warning_event m e)" "\<not> is_error (warning_event m e)"
  "is_warning (warning_event m e)"
  "\<not> is_numeric_event (warning_event m e)"
  "\<not> is_total_rank_event (warning_event m e)"
  "\<not> is_module_rank_event (warning_event m e)"
  by (simp_all add: warning_event_def is_block_event_def is_error_def is_warning_def
      is_numeric_event_def is_total_rank_event_def is_module_rank_event_def)

lemma kinds_module_rank_event [simp]:
  "\<not> is_block_event (module_rank_event cc_rank p)" "is_error (module_rank_event cc_rank p)"
  "\<not> is_warning (module_rank_event cc_rank p)"
  "\<not> is_numeric_event (module_rank_event cc_rank p)"
  "\<not> is_total_rank_event (module_rank_event cc_rank p)"
  "is_module_rank_event (module_rank_event cc_rank p)"
  by (simp_all add: module_rank_event_def is_block_event_def is_error_def is_warning_def
      is_numeric_event_def is_total_rank_event_def is_module_rank_event_def)

lemma filter_map_const:
  "(\<And>x. P (f x)) \<Longrightarrow> filter P (map f xs) = map f xs"
  "(\<And>x. \<not> P (f x)) \<Longrightarrow> filter P (map f xs) = []"
  by (induction xs) simp_all

lemma filter_kinds_module_rank_events [simp]:
  "filter is_block_event (module_rank_events cc_rank a avs) = []"
  "filter is_warning (module_rank_events cc_rank a avs) = []"
  "filter is_numeric_event (module_rank_events cc_rank a avs) = []"
  "filter is_total_rank_event (module_rank_events cc_rank a avs) = []"
  "filter is_module_rank_event (module_rank_events cc_rank a avs) = module_rank_events cc_rank a avs"
  by (simp_all add: module_rank_events_def filter_map_const)

lemma filter_kinds_numeric_events [simp]:
  "filter is_block_event (numeric_events a q) = []"
  "filter is_warning (numeric_events a q) = []"
  "filter is_numeric_event (numeric_events a q) = numeric_events a q"
  "filter is_total_rank_event (numeric_events a q) = []"
  "filter is_module_rank_event (numeric_events a q) = []"
  by (simp_all add: numeric_events_def is_block_event_def is_warning_def
      is_numeric_event_def is_total_rank_event_def is_module_rank_event_def split: option.splits)

lemma filter_kinds_total_rank_events [simp]:
  "filter is_block_event (total_rank_events cc_rank a q) = []"
  "filter is_warning (total_rank_events cc_rank a q) = []"
  "filter is_numeric_event (total_rank_events cc_rank a q) = []"
  "filter is_total_rank_event (total_rank_events cc_rank a q) = total_rank_events cc_rank a q"
  "filter is_module_rank_event (total_rank_events cc_rank a q) = []"
  by (simp_all add: total_rank_events_def is_block_event_def is_warning_def
      is_numeric_event_def is_total_rank_event_def is_module_rank_event_def)

lemma filter_kinds_module_events [simp]:
  "filter is_block_event (module_events cc_rank a ig p) =
     map (block_event cc_rank (fst p)) (filter (flagged cc_rank a ig (fst p)) (parsed_blocks (snd p)))"
  "filter is_numeric_event (module_events cc_rank a ig p) = []"
  "filter is_total_rank_event (module_events cc_rank a ig p) = []"
  "filter is_module_rank_event (module_events cc_rank a ig p) = []"
  by (cases p; cases "snd p"; simp add: filter_map_const)+

lemma filter_concat_map:
  "filter P (concat (map f xs)) = concat (map (\<lambda>x. filter P (f x)) xs)"
  by (induction xs) simp_all

lemma concat_map_Nil: "concat (map (\<lambda>x. []) xs) = []"
  by (induction xs) simp_all

lemma length_filter_split:
  "length (filter P xs) = length (filter (\<lambda>x. P x \<and> Q x) xs) + length (filter (\<lambda>x. P x \<and> \<not> Q x) xs)"
  by (induction xs) simp_all

lemma flagged_fun:
  "flagged cc_rank a ig m =
     (\<lambda>b. check (cc_rank (of_int (complexity b))) (absolute a) \<and> name b \<notin> set (dict_get ig m))"
  by (rule ext) (simp add: flagged_def)

lemma block_event_is_error:
  assumes "ev \<in> set (expected_events cc_rank a ig results)" and "is_block_event ev"
  shows "is_error ev"
proof -
  have "is_error ev" if "ev \<in> set (module_events cc_rank a ig p)" for p
    using that assms(2) by (cases p; cases "snd p") (auto simp: warning_event_def is_block_event_def)
  moreover have "is_error ev" if "ev \<in> set (numeric_events a q)" for q
    using that by (auto simp: numeric_events_def is_error_def split: option.splits if_splits)
  moreover have "is_error ev" if "ev \<in> set (total_rank_events cc_rank a q)" for q
    using that by (auto simp: total_rank_events_def is_error_def split: if_splits)
  moreover have "is_error ev" if "ev \<in> set (module_rank_events cc_rank a avs)" for avs
    using that by (auto simp: module_rank_events_def)
  ultimately show ?thesis
    using assms(1) by (auto simp: expected_events_def)
qed

lemma block_events_are_errors:
  "filter (\<lambda>ev. is_error ev \<and> is_block_event ev) (expected_events cc_rank a ig results)
   = filter is_block_event (expected_events cc_rank a ig results)"
  by (rule filter_cong [OF refl]) (auto dest: block_event_is_error)

section \<open>Strings and the ignore specification\<close>



lemma py_upper_b: "py_upper ''b'' = ''B''" "py_upper ''B'' = ''B''"
  by code_simp+

lemma length_py_split: "length (py_split sep s) = Suc (count_list s sep)"
  by (induction s) (auto split: list.splits)

lemma add_entries_malformed:
  "e \<in> set es \<Longrightarrow> length (py_split (CHR '':'') e) \<noteq> 2 \<Longrightarrow> add_entries es d = Inl ValueError"
proof (induction es arbitrary: d)
  case Nil
  then show ?case by simp
next
  case (Cons x es)
  show ?case
  proof (cases "length (py_split (CHR '':'') x) = 2")
    case True
    with Cons.prems have "e \<in> set es" by auto
    from Cons.IH [OF this Cons.prems(2)] show ?thesis
      by (simp split: list.splits)
  next
    case False
    then show ?thesis by (auto split: list.splits)
  qed
qed

lemma py_strip_simps:
  "py_strip ''mod_a'' = ''mod_a''" "py_strip ''f1'' = ''f1''" "py_strip '' mod_a'' = ''mod_a''"
  "py_strip ''f2 '' = ''f2''" "py_strip '' mod_b'' = ''mod_b''" "py_strip ''g'' = ''g''"
  by (simp_all add: py_strip_def isspace_def)

section \<open>The events of a call, by kind\<close>

lemma filter_warning_module_events [simp]:
  "filter is_warning (module_events cc_rank a ig p) = module_warnings p"
  by (cases p; cases "snd p"; simp add: filter_map_const)

lemma filter_error_module_events [simp]:
  "filter is_error (module_events cc_rank a ig p) =
     map (block_event cc_rank (fst p)) (filter (flagged cc_rank a ig (fst p)) (parsed_blocks (snd p)))"
  by (cases p; cases "snd p"; simp add: filter_map_const)

lemma expected_events_kinds:
  "filter is_block_event (expected_events cc_rank a ig results) =
     concat (map (\<lambda>p. map (block_event cc_rank (fst p))
                         (filter (flagged cc_rank a ig (fst p)) (parsed_blocks (snd p)))) results)"
  "filter is_numeric_event (expected_events cc_rank a ig results) =
     numeric_events a (average_of (all_blocks results))"
  "filter is_total_rank_event (expected_events cc_rank a ig results) =
     total_rank_events cc_rank a (average_of (all_blocks results))"
  "filter is_module_rank_event (expected_events cc_rank a ig results) =
     module_rank_events cc_rank a (averages results)"
  "filter is_warning (expected_events cc_rank a ig results) = concat (map module_warnings results)"
  "filter is_error (expected_events cc_rank a ig results) =
     concat (map (\<lambda>p. map (block_event cc_rank (fst p))
                         (filter (flagged cc_rank a ig (fst p)) (parsed_blocks (snd p)))) results)
     @ numeric_events a (average_of (all_blocks results))
     @ total_rank_events cc_rank a (average_of (all_blocks results))
     @ module_rank_events cc_rank a (averages results)"
  by (simp_all add: expected_events_def filter_concat_map concat_map_Nil
      filter_is_error_module_rank_events filter_is_error_numeric_events
      filter_is_error_total_rank_events)

lemma length_expected_events:
  "length (expected_events cc_rank a ig results) =
     length (filter is_error (expected_events cc_rank a ig results))
     + length (filter is_warning (expected_events cc_rank a ig results))"
proof -
  have "is_error ev \<noteq> is_warning ev" for ev :: event
    by (cases "fst ev") (simp_all add: is_error_def is_warning_def)
  then have "length xs = length (filter is_error xs) + length (filter is_warning xs)"
    for xs :: "event list"
    by (induction xs) auto
  then show ?thesis .
qed

lemma suppressed_simps [simp]:
  "suppressed ig (block_event cc_rank m b) = (name b \<in> set (dict_get ig m))"
  "\<not> suppressed ig (warning_event m e)"
  "\<not> suppressed ig (module_rank_event cc_rank p)"
  by (simp_all add: suppressed_def) (simp add: block_event_def)

lemma not_block_not_suppressed: "\<not> is_block_event ev \<Longrightarrow> \<not> suppressed ig ev"
  by (simp add: suppressed_def)

lemma filter_not_suppressed:
  "filter is_block_event xs = [] \<Longrightarrow> filter (\<lambda>ev. \<not> suppressed ig ev) xs = xs"
  by (simp add: filter_empty_conv not_block_not_suppressed)

lemma filter_suppressed_other [simp]:
  "filter (\<lambda>ev. \<not> suppressed ig ev) (numeric_events a q) = numeric_events a q"
  "filter (\<lambda>ev. \<not> suppressed ig ev) (total_rank_events cc_rank a q) = total_rank_events cc_rank a q"
  "filter (\<lambda>ev. \<not> suppressed ig ev) (module_rank_events cc_rank a avs) = module_rank_events cc_rank a avs"
  by (simp_all add: filter_not_suppressed)

lemma events_ignore_blocks_None [simp]:
  "numeric_events (a\<lparr>ignore_blocks := None\<rparr>) q = numeric_events a q"
  "total_rank_events cc_rank (a\<lparr>ignore_blocks := None\<rparr>) q = total_rank_events cc_rank a q"
  "module_rank_events cc_rank (a\<lparr>ignore_blocks := None\<rparr>) avs = module_rank_events cc_rank a avs"
  by (simp_all add: numeric_events_def total_rank_events_def module_rank_events_def)

lemma filter_suppressed_module_events:
  "filter (\<lambda>ev. \<not> suppressed ig ev) (module_events cc_rank (a\<lparr>ignore_blocks := None\<rparr>) Map.empty p)
   = module_events cc_rank a ig p"
proof (cases p)
  case (Pair m r)
  show ?thesis
  proof (cases r)
    case (Blocks bs)
    have "filter (\<lambda>ev. \<not> suppressed ig ev)
            (map (block_event cc_rank m) (filter (flagged cc_rank (a\<lparr>ignore_blocks := None\<rparr>) Map.empty m) bs))
          = map (block_event cc_rank m) (filter (flagged cc_rank a ig m) bs)"
      by (induction bs) (simp_all add: flagged_def dict_get_def)
    then show ?thesis by (simp add: Pair Blocks)
  next
    case (ErrorDict e)
    then show ?thesis by (simp add: Pair)
  qed
qed

lemma expected_events_suppressed:
  "expected_events cc_rank a ig results =
     filter (\<lambda>ev. \<not> suppressed ig ev)
       (expected_events cc_rank (a\<lparr>ignore_blocks := None\<rparr>) Map.empty results)"
  by (simp add: expected_events_def filter_concat_map filter_suppressed_module_events)

lemma length_filter_complement:
  "length (filter P xs) = length (filter (\<lambda>x. P x \<and> \<not> Q x) xs) + length (filter (\<lambda>x. P x \<and> Q x) xs)"
  by (induction xs) simp_all

lemma suppressed_count:
  "length (filter is_error (expected_events cc_rank a0 ig0 results)) =
     length (filter is_error (filter (\<lambda>ev. \<not> suppressed ig ev) (expected_events cc_rank a0 ig0 results)))
     + length (filter (suppressed ig) (expected_events cc_rank a0 ig0 results))"
proof -
  let ?xs = "expected_events cc_rank a0 ig0 results"
  have "filter (\<lambda>ev. is_error ev \<and> suppressed ig ev) ?xs = filter (suppressed ig) ?xs"
    by (rule filter_cong [OF refl]) (auto simp: suppressed_def dest: block_event_is_error)
  moreover have "filter is_error (filter (\<lambda>ev. \<not> suppressed ig ev) ?xs)
      = filter (\<lambda>ev. is_error ev \<and> \<not> suppressed ig ev) ?xs"
    by (simp add: conj_commute)
  ultimately show ?thesis
    using length_filter_complement [of is_error ?xs "suppressed ig"] by simp
qed






section \<open>Well-formed entries and error markers\<close>

lemma dict_get_upd:
  "dict_get (d(k0 \<mapsto> v)) k = (if k = k0 then v else dict_get d k)"
  by (simp add: dict_get_def)

lemma add_entries_wellformed:
  assumes "\<And>e. e \<in> set es \<Longrightarrow> length (py_split (CHR '':'') e) = 2"
  shows "\<exists>d'. add_entries es d = Inr d' \<and>
     (\<forall>k. dict_get d' k =
        dict_get d k
        @ map (\<lambda>e. py_strip (py_split (CHR '':'') e ! 1))
            (filter (\<lambda>e. py_strip (py_split (CHR '':'') e ! 0) = k) es))"
  using assms
proof (induction es arbitrary: d)
  case Nil
  then show ?case by simp
next
  case (Cons x es)
  from Cons.prems [of x] obtain mn bn where x: "py_split (CHR '':'') x = [mn, bn]"
    by (cases "py_split (CHR '':'') x" rule: list.exhaust; simp)
       (metis length_0_conv length_Suc_conv)
  let ?d = "d(py_strip mn \<mapsto> dict_get d (py_strip mn) @ [py_strip bn])"
  have "\<exists>d'. add_entries es ?d = Inr d' \<and>
     (\<forall>k. dict_get d' k =
        dict_get ?d k
        @ map (\<lambda>e. py_strip (py_split (CHR '':'') e ! 1))
            (filter (\<lambda>e. py_strip (py_split (CHR '':'') e ! 0) = k) es))"
    by (rule Cons.IH) (simp add: Cons.prems)
  then obtain d' where
    d': "add_entries es ?d = Inr d'"
    and get: "\<And>k. dict_get d' k =
        dict_get ?d k
        @ map (\<lambda>e. py_strip (py_split (CHR '':'') e ! 1))
            (filter (\<lambda>e. py_strip (py_split (CHR '':'') e ! 0) = k) es)"
    by blast
  have "add_entries (x # es) d = Inr d'"
    using d' by (simp add: x)
  moreover have "dict_get d' k =
        dict_get d k
        @ map (\<lambda>e. py_strip (py_split (CHR '':'') e ! 1))
            (filter (\<lambda>e. py_strip (py_split (CHR '':'') e ! 0) = k) (x # es))" for k
    by (simp add: get dict_get_upd x)
  ultimately show ?case by blast
qed

lemma filter_blocks_only:
  "all_blocks (filter (\<lambda>p. module_warnings p = []) results) = all_blocks results"
  "averages (filter (\<lambda>p. module_warnings p = []) results) = averages results"
  "concat (map (module_events cc_rank a ig) (filter (\<lambda>p. module_warnings p = []) results))
   = filter (\<lambda>ev. \<not> is_warning ev) (concat (map (module_events cc_rank a ig) results))"
proof -
  show "all_blocks (filter (\<lambda>p. module_warnings p = []) results) = all_blocks results"
  proof (induction results)
    case Nil
    show ?case by simp
  next
    case (Cons p results)
    then show ?case
      by (cases p; cases "snd p") (simp_all add: all_blocks_def)
  qed
  show "averages (filter (\<lambda>p. module_warnings p = []) results) = averages results"
  proof (induction results)
    case Nil
    show ?case by simp
  next
    case (Cons p results)
    then show ?case
      by (cases p; cases "snd p") (simp_all add: averages_def)
  qed
  show "concat (map (module_events cc_rank a ig) (filter (\<lambda>p. module_warnings p = []) results))
   = filter (\<lambda>ev. \<not> is_warning ev) (concat (map (module_events cc_rank a ig) results))"
  proof (induction results)
    case Nil
    show ?case by simp
  next
    case (Cons p results)
    then show ?case
      by (cases p; cases "snd p") (simp_all add: filter_map_const)
  qed
qed

lemma error_markers_only_warn:
  assumes "build_blocks_to_ignore a = Inr ig" and "ErrorDict [] \<notin> snd ` set results"
  shows "\<exists>evs n.
      find_infractions cc_rank a results = (evs, Inr n)
    \<and> find_infractions cc_rank a (filter (\<lambda>p. module_warnings p = []) results)
        = (filter (\<lambda>ev. \<not> is_warning ev) evs, Inr n)
    \<and> filter is_warning evs = concat (map module_warnings results)"
proof -
  have wf': "ErrorDict [] \<notin> snd ` set (filter (\<lambda>p. module_warnings p = []) results)"
    using assms(2) by auto
  have nw: "filter (\<lambda>ev. \<not> is_warning ev) xs = xs" if "filter is_warning xs = []"
    for xs :: "event list"
    using that by (simp add: filter_empty_conv)
  have ev: "expected_events cc_rank a ig (filter (\<lambda>p. module_warnings p = []) results)
      = filter (\<lambda>ev. \<not> is_warning ev) (expected_events cc_rank a ig results)"
    by (simp add: expected_events_def filter_blocks_only nw)
  have "filter is_error (filter (\<lambda>ev. \<not> is_warning ev) xs) = filter is_error xs"
    for xs :: "event list"
    by (induction xs) (auto simp: is_error_def is_warning_def)
  then show ?thesis
    by (simp add: find_infractions_eq [OF assms] find_infractions_eq [OF assms(1) wf'] ev
        expected_events_kinds)
qed

section \<open>The claims\<close>

text \<open>
  C1. When the ignore specification parses to \<open>ig\<close> and the loop over the modules runs to
  its end, \<open>find_infractions\<close> returns, and the events it logs with the format
  \<open>block "%s:%s %s" has a rank of %s\<close> are, module by module and block by block in the
  order of the result set, one error event for exactly the blocks with
  \<open>check (cc_rank complexity) absolute\<close> and a name outside \<open>ig[module]\<close>; a module that is
  an error marker contributes none. Each of these events counts one infraction: the number
  returned is their number plus the number of the other error events. A block event
  renders as \<open>block "<module>:<lineno> <name>" has a rank of <r>\<close>.
\<close>

theorem block_infractions:
  assumes "build_blocks_to_ignore a = Inr ig" and "ErrorDict [] \<notin> snd ` set results"
  shows "\<exists>evs n.
     find_infractions cc_rank a results = (evs, Inr n)
     \<and> filter is_block_event evs =
         concat (map (\<lambda>(m, r).
           map (block_event cc_rank m)
             (filter (\<lambda>b. check (cc_rank (of_int (complexity b))) (absolute a)
                          \<and> name b \<notin> set (dict_get ig m)) (parsed_blocks r))) results)
     \<and> n = length (filter is_block_event evs)
           + length (filter (\<lambda>ev. is_error ev \<and> \<not> is_block_event ev) evs)
     \<and> render (block_event cc_rank m b) =
         Some (''block \"'' @ m @ '':'' @ str_int (lineno b) @ '' '' @ name b
               @ ''\" has a rank of '' @ cc_rank (of_int (complexity b)))"
proof -
  let ?evs = "expected_events cc_rank a ig results"
  have "filter is_block_event ?evs =
      concat (map (\<lambda>(m, r).
           map (block_event cc_rank m)
             (filter (\<lambda>b. check (cc_rank (of_int (complexity b))) (absolute a)
                          \<and> name b \<notin> set (dict_get ig m)) (parsed_blocks r))) results)"
    by (simp add: expected_events_def filter_concat_map flagged_fun case_prod_unfold)
  moreover have "length (filter is_error ?evs) = length (filter is_block_event ?evs)
           + length (filter (\<lambda>ev. is_error ev \<and> \<not> is_block_event ev) ?evs)"
    using length_filter_split [of is_error ?evs is_block_event]
    by (simp add: block_events_are_errors)
  ultimately show ?thesis
    using find_infractions_eq [OF assms, of cc_rank] by (simp add: render_block_event)
qed

text \<open>
  The theorem at the blocks \<open>f\<close> and \<open>g\<close> of module \<open>m1\<close>, both of complexity 45, with the
  ceiling \<open>B\<close> and \<open>m1:f\<close> ignored.
\<close>

theorem block_infractions_witness:
  "build_blocks_to_ignore
     \<lparr>ignore_blocks = Some ''m1:f'', absolute = Some ''B'', modules = None, average = None,
      averagenum = None\<rparr> = Inr [''m1'' \<mapsto> [''f'']]
   \<and> ErrorDict [] \<notin> snd ` set [(''m1'', Blocks [\<lparr>name = ''f'', lineno = 1, complexity = 45\<rparr>,
                                                \<lparr>name = ''g'', lineno = 9, complexity = 45\<rparr>])]
   \<and> (\<exists>evs n.
        find_infractions radon_cc_rank
          \<lparr>ignore_blocks = Some ''m1:f'', absolute = Some ''B'', modules = None, average = None,
           averagenum = None\<rparr>
          [(''m1'', Blocks [\<lparr>name = ''f'', lineno = 1, complexity = 45\<rparr>,
                            \<lparr>name = ''g'', lineno = 9, complexity = 45\<rparr>])] = (evs, Inr n)
        \<and> filter is_block_event evs =
            [block_event radon_cc_rank ''m1'' \<lparr>name = ''g'', lineno = 9, complexity = 45\<rparr>]
        \<and> n = length (filter is_block_event evs)
              + length (filter (\<lambda>ev. is_error ev \<and> \<not> is_block_event ev) evs))
   \<and> render (block_event radon_cc_rank ''m1'' \<lparr>name = ''g'', lineno = 9, complexity = 45\<rparr>)
       = Some ''block \"m1:9 g\" has a rank of F''"
proof -
  let ?a = "\<lparr>ignore_blocks = Some ''m1:f'', absolute = Some ''B'', modules = None,
             average = None, averagenum = None\<rparr>"
  let ?rs = "[(''m1'', Blocks [\<lparr>name = ''f'', lineno = 1, complexity = 45\<rparr>,
                               \<lparr>name = ''g'', lineno = 9, complexity = 45\<rparr>])]"
  have h1: "build_blocks_to_ignore ?a = Inr [''m1'' \<mapsto> [''f'']]"
    by (simp add: build_blocks_to_ignore_def dict_get_def py_strip_def isspace_def)
  have h2: "ErrorDict [] \<notin> snd ` set ?rs"
    by simp
  have r: "radon_cc_rank 45 = ''F''"
    by (simp add: radon_cc_rank_def)
  have c: "check ''F'' (Some ''B'')"
    by (simp add: check_def py_upper_b)
  have d: "str_int 9 = ''9''"
    by code_simp
  let ?g = "\<lparr>name = ''g'', lineno = 9, complexity = 45\<rparr>"
  from block_infractions [OF h1 h2, of radon_cc_rank "''m1''" ?g]
  have ex: "\<exists>evs n.
        find_infractions radon_cc_rank ?a ?rs = (evs, Inr n)
        \<and> filter is_block_event evs = [block_event radon_cc_rank ''m1'' ?g]
        \<and> n = length (filter is_block_event evs)
              + length (filter (\<lambda>ev. is_error ev \<and> \<not> is_block_event ev) evs)"
    and rn: "render (block_event radon_cc_rank ''m1'' ?g)
        = Some ''block \"m1:9 g\" has a rank of F''"
    by (simp_all add: dict_get_def r c d) blast+
  from h1 h2 ex rn show ?thesis by blast
qed

text \<open>
  C2. Whenever \<open>find_infractions\<close> returns a number, that number is the number of error
  events logged during the call, which is the sum over the four axes: block events,
  the numeric total-average event, the total-rank event and the module-rank events. The
  warnings logged are one \<open>cannot parse\<close> event for each error marker of the result set, in
  its order; they are no error events, so none is counted: the log has as many events as
  the number returned plus the number of warnings.
\<close>

theorem infractions_count_error_events:
  assumes "find_infractions cc_rank a results = (evs, Inr n)"
  shows "n = length (filter is_error evs)
     \<and> n = length (filter is_block_event evs) + length (filter is_numeric_event evs)
           + length (filter is_total_rank_event evs) + length (filter is_module_rank_event evs)
     \<and> filter is_warning evs = concat (map module_warnings results)
     \<and> length evs = n + length (filter is_warning evs)"
proof -
  from find_infractions_returns [OF assms] obtain ig
    where ig: "build_blocks_to_ignore a = Inr ig" and wf: "ErrorDict [] \<notin> snd ` set results"
    by blast
  from find_infractions_eq [OF ig wf, of cc_rank] assms
  have evs: "evs = expected_events cc_rank a ig results"
    and n: "n = length (filter is_error (expected_events cc_rank a ig results))"
    by simp_all
  show ?thesis
    unfolding evs n
    using length_expected_events [of cc_rank a ig results]
    by (simp add: expected_events_kinds)
qed

text \<open>
  The theorem at a result set with one block of complexity 45 and one module that failed
  to parse: three infractions (block, numeric average, module rank) and one warning.
\<close>

theorem infractions_count_error_events_witness:
  "\<exists>evs. find_infractions radon_cc_rank
       \<lparr>ignore_blocks = None, absolute = Some ''B'', modules = Some ''b'', average = None,
        averagenum = Some 10\<rparr>
       [(''m1'', Blocks [\<lparr>name = ''f'', lineno = 1, complexity = 45\<rparr>]),
        (''m2'', ErrorDict ''SyntaxError'')] = (evs, Inr 3)
     \<and> 3 = length (filter is_error evs)
     \<and> 3 = length (filter is_block_event evs) + length (filter is_numeric_event evs)
           + length (filter is_total_rank_event evs) + length (filter is_module_rank_event evs)
     \<and> filter is_warning evs =
         concat (map module_warnings
           [(''m1'', Blocks [\<lparr>name = ''f'', lineno = 1, complexity = 45\<rparr>]),
            (''m2'', ErrorDict ''SyntaxError'')])
     \<and> length evs = 3 + length (filter is_warning evs)"
proof -
  have h: "find_infractions radon_cc_rank
       \<lparr>ignore_blocks = None, absolute = Some ''B'', modules = Some ''b'', average = None,
        averagenum = Some 10\<rparr>
       [(''m1'', Blocks [\<lparr>name = ''f'', lineno = 1, complexity = 45\<rparr>]),
        (''m2'', ErrorDict ''SyntaxError'')]
     = ([(Error, ''block \"%s:%s %s\" has a rank of %s'',
          [PyStr ''m1'', PyInt 1, PyStr ''f'', PyStr ''F'']),
         (Warning, ''cannot parse %s: %s'', [PyStr ''m2'', PyStr ''SyntaxError'']),
         (Error, ''total average complexity is %s'', [PyFloat 45]),
         (Error, ''module %r has a rank of %s'', [PyStr ''m1'', PyStr ''F''])], Inr 3)"
    by code_simp
  from infractions_count_error_events [OF h] h show ?thesis by blast
qed

text \<open>
  C3. The claim is about every error marker; the code misses the marker whose message is
  the empty string. At the result set \<open>{'m1': {'error': ''}}\<close>, with every threshold set,
  \<open>find_infractions\<close> logs no warning and does not skip the module: it raises \<open>TypeError\<close>
  (line 86 indexes the dictionary key \<open>'error'\<close> with \<open>'complexity'\<close>). What the claim says
  holds for the markers with a non-empty message: lemma \<open>error_markers_only_warn\<close>.
\<close>

theorem empty_error_marker_raises:
  "find_infractions radon_cc_rank
     \<lparr>ignore_blocks = None, absolute = Some ''B'', modules = Some ''B'', average = Some ''B'',
      averagenum = Some 10\<rparr>
     [(''m1'', ErrorDict [])]
   = ([], Inl TypeError)"
  by code_simp

text \<open>
  C4. When the ignore specification parses to \<open>ig\<close> and the call completes, the same call
  without ignore specification completes too, and the two differ only by the block events
  that \<open>ig\<close> names: the log with \<open>ig\<close> is the log without it, minus the block events whose
  module and block name are an entry of \<open>ig\<close>, and the number returned is smaller by the
  number of these events. The events of the other axes are the same in both logs, and the
  loop over the modules leaves the same module averages, the same total score and the same
  number of blocks.
\<close>

theorem ignore_map_frame:
  assumes "build_blocks_to_ignore a = Inr ig" and "ErrorDict [] \<notin> snd ` set results"
  shows "\<exists>evs n evs0 n0.
      find_infractions cc_rank a results = (evs, Inr n)
    \<and> find_infractions cc_rank (a\<lparr>ignore_blocks := None\<rparr>) results = (evs0, Inr n0)
    \<and> evs = filter (\<lambda>ev. \<not> suppressed ig ev) evs0
    \<and> n0 = n + length (filter (suppressed ig) evs0)
    \<and> filter (\<lambda>ev. \<not> is_block_event ev) evs = filter (\<lambda>ev. \<not> is_block_event ev) evs0
    \<and> module_averages (fst (module_loop cc_rank a ig results st))
        = module_averages (fst (module_loop cc_rank (a\<lparr>ignore_blocks := None\<rparr>) Map.empty results st))
    \<and> total_cc (fst (module_loop cc_rank a ig results st))
        = total_cc (fst (module_loop cc_rank (a\<lparr>ignore_blocks := None\<rparr>) Map.empty results st))
    \<and> total_blocks (fst (module_loop cc_rank a ig results st))
        = total_blocks (fst (module_loop cc_rank (a\<lparr>ignore_blocks := None\<rparr>) Map.empty results st))"
proof -
  let ?a0 = "a\<lparr>ignore_blocks := None\<rparr>"
  let ?evs0 = "expected_events cc_rank ?a0 Map.empty results"
  have b0: "build_blocks_to_ignore ?a0 = Inr Map.empty"
    by (simp add: build_blocks_to_ignore_def)
  have other: "filter (\<lambda>ev. \<not> is_block_event ev) (filter (\<lambda>ev. \<not> suppressed ig ev) ?evs0)
      = filter (\<lambda>ev. \<not> is_block_event ev) ?evs0"
    unfolding filter_filter
    by (rule filter_cong [OF refl]) (auto dest: not_block_not_suppressed)
  show ?thesis
    using suppressed_count [of cc_rank ?a0 Map.empty results ig] other
    by (simp add: find_infractions_eq [OF assms] find_infractions_eq [OF b0 assms(2)]
        module_loop_eq [OF assms(2)] expected_events_suppressed [of cc_rank a ig results])
qed

text \<open>
  The theorem at two blocks of complexity 45 with every ceiling set and \<open>m1:f\<close> ignored:
  four infractions with the entry, five without it.
\<close>

theorem ignore_map_frame_witness:
  "build_blocks_to_ignore
     \<lparr>ignore_blocks = Some ''m1:f'', absolute = Some ''B'', modules = Some ''B'',
      average = Some ''B'', averagenum = Some 10\<rparr> = Inr [''m1'' \<mapsto> [''f'']]
   \<and> ErrorDict [] \<notin> snd ` set [(''m1'', Blocks [\<lparr>name = ''f'', lineno = 1, complexity = 45\<rparr>,
                                                \<lparr>name = ''g'', lineno = 9, complexity = 45\<rparr>])]
   \<and> (\<exists>evs n evs0 n0.
      find_infractions radon_cc_rank
        \<lparr>ignore_blocks = Some ''m1:f'', absolute = Some ''B'', modules = Some ''B'',
         average = Some ''B'', averagenum = Some 10\<rparr>
        [(''m1'', Blocks [\<lparr>name = ''f'', lineno = 1, complexity = 45\<rparr>,
                          \<lparr>name = ''g'', lineno = 9, complexity = 45\<rparr>])] = (evs, Inr n)
    \<and> find_infractions radon_cc_rank
        (\<lparr>ignore_blocks = Some ''m1:f'', absolute = Some ''B'', modules = Some ''B'',
          average = Some ''B'', averagenum = Some 10\<rparr>\<lparr>ignore_blocks := None\<rparr>)
        [(''m1'', Blocks [\<lparr>name = ''f'', lineno = 1, complexity = 45\<rparr>,
                          \<lparr>name = ''g'', lineno = 9, complexity = 45\<rparr>])] = (evs0, Inr n0)
    \<and> evs = filter (\<lambda>ev. \<not> suppressed [''m1'' \<mapsto> [''f'']] ev) evs0
    \<and> n0 = n + length (filter (suppressed [''m1'' \<mapsto> [''f'']]) evs0)
    \<and> n = 4 \<and> n0 = 5)"
proof -
  let ?a = "\<lparr>ignore_blocks = Some ''m1:f'', absolute = Some ''B'', modules = Some ''B'',
             average = Some ''B'', averagenum = Some 10\<rparr>"
  let ?rs = "[(''m1'', Blocks [\<lparr>name = ''f'', lineno = 1, complexity = 45\<rparr>,
                               \<lparr>name = ''g'', lineno = 9, complexity = 45\<rparr>])]"
  have h1: "build_blocks_to_ignore ?a = Inr [''m1'' \<mapsto> [''f'']]"
    by (simp add: build_blocks_to_ignore_def dict_get_def py_strip_def isspace_def)
  have h2: "ErrorDict [] \<notin> snd ` set ?rs"
    by simp
  have n: "snd (find_infractions radon_cc_rank ?a ?rs) = Inr 4"
    by code_simp
  have n0: "snd (find_infractions radon_cc_rank (?a\<lparr>ignore_blocks := None\<rparr>) ?rs) = Inr 5"
    by code_simp
  from ignore_map_frame [OF h1 h2, where cc_rank = radon_cc_rank] n n0
  have "\<exists>evs n evs0 n0.
      find_infractions radon_cc_rank ?a ?rs = (evs, Inr n)
    \<and> find_infractions radon_cc_rank (?a\<lparr>ignore_blocks := None\<rparr>) ?rs = (evs0, Inr n0)
    \<and> evs = filter (\<lambda>ev. \<not> suppressed [''m1'' \<mapsto> [''f'']] ev) evs0
    \<and> n0 = n + length (filter (suppressed [''m1'' \<mapsto> [''f'']]) evs0)
    \<and> n = 4 \<and> n0 = 5"
    by fastforce
  with h1 h2 show ?thesis by blast
qed

text \<open>
  C5, as stated, gives the message \<open>module "<module>" has a rank of <rank>\<close>. The code
  logs with the format \<open>module %r has a rank of %s\<close>: the module name is rendered by
  \<open>repr\<close>, in single quotes here.
\<close>

theorem module_rank_message_counterexample:
  \<open>find_infractions radon_cc_rank
     \<lparr>ignore_blocks = None, absolute = None, modules = Some ''B'', average = None,
      averagenum = None\<rparr>
     [(''m1'', Blocks [\<lparr>name = ''f'', lineno = 1, complexity = 45\<rparr>])]
   = ([(Error, ''module %r has a rank of %s'', [PyStr ''m1'', PyStr ''F''])], Inr 1)
   \<and> render (Error, ''module %r has a rank of %s'', [PyStr ''m1'', PyStr ''F''])
       = Some ''module 'm1' has a rank of F''
   \<and> render (Error, ''module %r has a rank of %s'', [PyStr ''m1'', PyStr ''F''])
       \<noteq> Some ''module "m1" has a rank of F''\<close>
  by code_simp

text \<open>
  C5, amended. When the call completes, the last events of the log are the module-rank
  events, and no event before them is one: for each pair recorded by the loop over the
  modules, in the order recorded, one error event when the rank of the average exceeds
  \<open>modules\<close>, each counted as one infraction. The pairs recorded are \<open>averages results\<close>: for
  each module that is a list of blocks its name and the quotient of the sum of its scores
  by the number of its blocks (0 for no block), so the rank is taken of the average score.
  The event renders as \<open>module \<close>, the \<open>repr\<close> of the module name, \<open> has a rank of \<close> and
  the rank.
\<close>

theorem module_rank_infractions:
  assumes "build_blocks_to_ignore a = Inr ig" and "ErrorDict [] \<notin> snd ` set results"
  shows "\<exists>pre.
      find_infractions cc_rank a results =
        (pre @ module_rank_events cc_rank a (averages results),
         Inr (length (filter is_error pre)
              + length (module_rank_events cc_rank a (averages results))))
    \<and> filter is_module_rank_event pre = []
    \<and> module_averages
         (fst (module_loop cc_rank a ig results
            \<lparr>infractions = 0, module_averages = [], total_cc = 0, total_blocks = 0,
             logged = []\<rparr>)) = averages results
    \<and> render (module_rank_event cc_rank (m, q)) =
        Some (''module '' @ repr_str m @ '' has a rank of '' @ cc_rank q)"
proof -
  let ?pre = "concat (map (module_events cc_rank a ig) results)
     @ numeric_events a (average_of (all_blocks results))
     @ total_rank_events cc_rank a (average_of (all_blocks results))"
  have "expected_events cc_rank a ig results = ?pre @ module_rank_events cc_rank a (averages results)"
    by (simp add: expected_events_def)
  moreover have "filter is_module_rank_event ?pre = []"
    by (simp add: filter_concat_map concat_map_Nil)
  ultimately show ?thesis
    using find_infractions_eq [OF assms, of cc_rank]
    by (simp add: module_loop_eq [OF assms(2)] render_module_rank_event
        filter_is_error_module_rank_events)
qed

text \<open>
  The theorem at a module with scores 45 and 2 (average 23.5, rank D, above the ceiling
  B) and a module with the score 3 (rank A).
\<close>

theorem module_rank_infractions_witness:
  \<open>build_blocks_to_ignore
     \<lparr>ignore_blocks = None, absolute = None, modules = Some ''B'', average = None,
      averagenum = None\<rparr> = Inr Map.empty
   \<and> ErrorDict [] \<notin> snd ` set [(''m1'', Blocks [\<lparr>name = ''f'', lineno = 1, complexity = 45\<rparr>,
                                                \<lparr>name = ''g'', lineno = 9, complexity = 2\<rparr>]),
                                (''m2'', Blocks [\<lparr>name = ''h'', lineno = 1, complexity = 3\<rparr>])]
   \<and> averages [(''m1'', Blocks [\<lparr>name = ''f'', lineno = 1, complexity = 45\<rparr>,
                                 \<lparr>name = ''g'', lineno = 9, complexity = 2\<rparr>]),
                 (''m2'', Blocks [\<lparr>name = ''h'', lineno = 1, complexity = 3\<rparr>])]
       = [(''m1'', 47 / 2), (''m2'', 3)]
   \<and> (\<exists>pre.
        find_infractions radon_cc_rank
          \<lparr>ignore_blocks = None, absolute = None, modules = Some ''B'', average = None,
           averagenum = None\<rparr>
          [(''m1'', Blocks [\<lparr>name = ''f'', lineno = 1, complexity = 45\<rparr>,
                            \<lparr>name = ''g'', lineno = 9, complexity = 2\<rparr>]),
           (''m2'', Blocks [\<lparr>name = ''h'', lineno = 1, complexity = 3\<rparr>])]
        = (pre @ [(Error, ''module %r has a rank of %s'', [PyStr ''m1'', PyStr ''D''])],
           Inr (length (filter is_error pre) + 1))
        \<and> filter is_module_rank_event pre = [])
   \<and> render (Error, ''module %r has a rank of %s'', [PyStr ''m1'', PyStr ''D''])
       = Some ''module 'm1' has a rank of D''\<close>
proof -
  let ?a = "\<lparr>ignore_blocks = None, absolute = None, modules = Some ''B'', average = None,
             averagenum = None\<rparr>"
  let ?rs = "[(''m1'', Blocks [\<lparr>name = ''f'', lineno = 1, complexity = 45\<rparr>,
                               \<lparr>name = ''g'', lineno = 9, complexity = 2\<rparr>]),
              (''m2'', Blocks [\<lparr>name = ''h'', lineno = 1, complexity = 3\<rparr>])]"
  have h1: "build_blocks_to_ignore ?a = Inr Map.empty"
    by (simp add: build_blocks_to_ignore_def)
  have h2: "ErrorDict [] \<notin> snd ` set ?rs"
    by simp
  have avs: "averages ?rs = [(''m1'', 47 / 2), (''m2'', 3)]"
    by (simp add: averages_def average_of_def score_sum_def)
  have r: "radon_cc_rank (47 / 2) = ''D''" "radon_cc_rank 3 = ''A''"
    by (simp_all add: radon_cc_rank_def)
  have c: "check ''D'' (Some ''B'')" "\<not> check ''A'' (Some ''B'')"
    by (simp_all add: check_def py_upper_b)
  have evs: "module_rank_events radon_cc_rank ?a [(''m1'', 47 / 2), (''m2'', 3)]
      = [(Error, ''module %r has a rank of %s'', [PyStr ''m1'', PyStr ''D''])]"
    by (simp add: module_rank_events_def module_rank_event_def r c)
  have rd: "repr_str ''m1'' = [CHR 0x27] @ ''m1'' @ [CHR 0x27]"
    by code_simp
  from module_rank_infractions [OF h1 h2, where cc_rank = radon_cc_rank and m = "''m1''"
      and q = "47 / 2"]
  obtain pre where
    fi: "find_infractions radon_cc_rank ?a ?rs =
      (pre @ module_rank_events radon_cc_rank ?a (averages ?rs),
       Inr (length (filter is_error pre)
            + length (module_rank_events radon_cc_rank ?a (averages ?rs))))"
    and np: "filter is_module_rank_event pre = []"
    and rn: "render (module_rank_event radon_cc_rank (''m1'', 47 / 2)) =
        Some (''module '' @ repr_str ''m1'' @ '' has a rank of '' @ radon_cc_rank (47 / 2))"
    by blast
  from fi have fi': "find_infractions radon_cc_rank ?a ?rs =
      (pre @ [(Error, ''module %r has a rank of %s'', [PyStr ''m1'', PyStr ''D''])],
       Inr (length (filter is_error pre) + 1))"
    by (simp only: avs evs) simp
  from rn have rn': "render (Error, ''module %r has a rank of %s'', [PyStr ''m1'', PyStr ''D''])
       = Some ''module 'm1' has a rank of D''"
    by (simp add: module_rank_event_def r rd)
  from fi' np have "\<exists>pre.
        find_infractions radon_cc_rank ?a ?rs
        = (pre @ [(Error, ''module %r has a rank of %s'', [PyStr ''m1'', PyStr ''D''])],
           Inr (length (filter is_error pre) + 1))
        \<and> filter is_module_rank_event pre = []"
    by blast
  with h1 h2 avs rn' show ?thesis by blast
qed



text \<open>
  C7. \<open>build_blocks_to_ignore\<close> returns the empty dictionary, without error, when
  \<open>ignore_blocks\<close> is \<open>None\<close> or the empty string. On
  \<open>mod_a:f1, mod_a:f2 , mod_b:g\<close> it returns the dictionary with exactly the keys \<open>mod_a\<close>
  and \<open>mod_b\<close>: the whitespace around the names is gone, the two blocks of \<open>mod_a\<close> are
  collected under its one key, as the set \<open>{f1, f2}\<close>, and \<open>mod_b\<close> has \<open>{g}\<close>.
\<close>

theorem build_blocks_to_ignore_examples:
  "build_blocks_to_ignore (a\<lparr>ignore_blocks := None\<rparr>) = Inr Map.empty
   \<and> build_blocks_to_ignore (a\<lparr>ignore_blocks := Some []\<rparr>) = Inr Map.empty
   \<and> build_blocks_to_ignore (a\<lparr>ignore_blocks := Some ''mod_a:f1, mod_a:f2 , mod_b:g''\<rparr>)
       = Inr [''mod_a'' \<mapsto> [''f1'', ''f2''], ''mod_b'' \<mapsto> [''g'']]
   \<and> dom [''mod_a'' \<mapsto> [''f1'', ''f2''], ''mod_b'' \<mapsto> [''g'']] = {''mod_a'', ''mod_b''}
   \<and> set (dict_get [''mod_a'' \<mapsto> [''f1'', ''f2''], ''mod_b'' \<mapsto> [''g'']] ''mod_a'')
       = {''f1'', ''f2''}
   \<and> set (dict_get [''mod_a'' \<mapsto> [''f1'', ''f2''], ''mod_b'' \<mapsto> [''g'']] ''mod_b'') = {''g''}"
  by (auto simp: build_blocks_to_ignore_def dict_get_def py_strip_simps)

text \<open>
  C8. When \<open>ignore_blocks\<close> is a non-empty string and one of its comma-separated entries
  does not hold exactly one colon, \<open>build_blocks_to_ignore\<close> raises (Python's \<open>ValueError\<close>,
  from the unpacking of line 51), and so does \<open>find_infractions\<close>, whatever the results and
  the thresholds are: nothing has been logged and no number is returned.
\<close>

theorem malformed_entry_fails:
  assumes "ignore_blocks a = Some s" and "s \<noteq> []"
    and "e \<in> set (py_split (CHR '','') s)" and "count_list e (CHR '':'') \<noteq> 1"
  shows "build_blocks_to_ignore a = Inl ValueError
         \<and> find_infractions cc_rank a results = ([], Inl ValueError)"
proof -
  from assms(4) have "length (py_split (CHR '':'') e) \<noteq> 2"
    by (simp add: length_py_split)
  from add_entries_malformed [OF assms(3) this]
  have "build_blocks_to_ignore a = Inl ValueError"
    by (simp add: build_blocks_to_ignore_def assms(1,2))
  then show ?thesis by (simp add: find_infractions_def)
qed

text \<open>The theorem at the specification's entry \<open>m1-no-colon\<close>, with every threshold set.\<close>

theorem malformed_entry_fails_witness:
  "ignore_blocks \<lparr>ignore_blocks = Some ''m1-no-colon'', absolute = Some ''A'',
       modules = Some ''A'', average = Some ''A'', averagenum = Some 1\<rparr> = Some ''m1-no-colon''
   \<and> ''m1-no-colon'' \<noteq> []
   \<and> ''m1-no-colon'' \<in> set (py_split (CHR '','') ''m1-no-colon'')
   \<and> count_list ''m1-no-colon'' (CHR '':'') \<noteq> 1
   \<and> find_infractions radon_cc_rank
        \<lparr>ignore_blocks = Some ''m1-no-colon'', absolute = Some ''A'', modules = Some ''A'',
         average = Some ''A'', averagenum = Some 1\<rparr>
        [(''m1'', Blocks [\<lparr>name = ''f'', lineno = 1, complexity = 45\<rparr>])]
      = ([], Inl ValueError)"
proof -
  let ?a = "\<lparr>ignore_blocks = Some ''m1-no-colon'', absolute = Some ''A'', modules = Some ''A'',
             average = Some ''A'', averagenum = Some 1\<rparr>"
  have h1: "ignore_blocks ?a = Some ''m1-no-colon''" by simp
  have h2: "''m1-no-colon'' \<noteq> []" by simp
  have h3: "''m1-no-colon'' \<in> set (py_split (CHR '','') ''m1-no-colon'')" by simp
  have h4: "count_list ''m1-no-colon'' (CHR '':'') \<noteq> 1" by simp
  from malformed_entry_fails [OF h1 h2 h3 h4, of radon_cc_rank] h1 h2 h3 h4
  show ?thesis by blast
qed





end
